theory Spec2Isabelle
  imports Complex_Main "HOL-Library.Multiset" "HOL-Library.Log_Nat"
begin

section \<open>Values, exceptions and library calls\<close>

text \<open>
  Both servers move JSON documents between a caller and the remote service. A Python
  \<^verbatim>\<open>dict\<close> with string keys is an association list with distinct keys, read with
  \<open>map_of\<close>. An \<^verbatim>\<open>int\<close> is unbounded; a \<^verbatim>\<open>float\<close> is a double, written as the
  rational number it denotes.
\<close>

datatype json =
    JNull
  | JBool bool
  | JInt int
  | JFloat rat
  | JStr string
  | JArr "json list"
  | JObj "(string \<times> json) list"

type_synonym dict = "(string \<times> json) list"

datatype error =
    KeyError string
  | AttributeError
  | ValueError
  | TypeError
  | ZeroDivisionError
  | HTTPException nat string
  | ClientResponseError nat
  | ClientError string
  | DecodeError

text \<open>\<^verbatim>\<open>d.get(k)\<close> answers \<^verbatim>\<open>None\<close> for a missing key, \<^verbatim>\<open>d.get(k, v)\<close> answers
  \<open>v\<close>, and \<^verbatim>\<open>d[k]\<close> raises \<^verbatim>\<open>KeyError\<close>.\<close>

definition get_default :: "dict \<Rightarrow> string \<Rightarrow> json \<Rightarrow> json" where
  "get_default d k v = (case map_of d k of None \<Rightarrow> v | Some x \<Rightarrow> x)"

definition get :: "dict \<Rightarrow> string \<Rightarrow> json" where
  "get d k = get_default d k JNull"

definition subscript :: "dict \<Rightarrow> string \<Rightarrow> error + json" where
  "subscript d k = (case map_of d k of None \<Rightarrow> Inl (KeyError k) | Some x \<Rightarrow> Inr x)"

text \<open>Python's truth value of a JSON value, as \<^verbatim>\<open>if x\<close> and \<^verbatim>\<open>not x\<close> test it.\<close>

fun truthy :: "json \<Rightarrow> bool" where
  "truthy JNull = False"
| "truthy (JBool b) = b"
| "truthy (JInt i) = (i \<noteq> 0)"
| "truthy (JFloat q) = (q \<noteq> 0)"
| "truthy (JStr s) = (s \<noteq> [])"
| "truthy (JArr xs) = (xs \<noteq> [])"
| "truthy (JObj kvs) = (kvs \<noteq> [])"

text \<open>
  A value used as a dictionary key must be hashable: lists and dictionaries are not, and
  using one raises \<^verbatim>\<open>TypeError\<close>. Keys are compared with \<^verbatim>\<open>==\<close>, under which
  \<^verbatim>\<open>True\<close>, \<^verbatim>\<open>1\<close> and \<^verbatim>\<open>1.0\<close> are one key.
\<close>

datatype key = KNone | KNum rat | KStr string

fun hash_key :: "json \<Rightarrow> error + key" where
  "hash_key JNull = Inr KNone"
| "hash_key (JBool b) = Inr (KNum (if b then 1 else 0))"
| "hash_key (JInt i) = Inr (KNum (of_int i))"
| "hash_key (JFloat q) = Inr (KNum q)"
| "hash_key (JStr s) = Inr (KStr s)"
| "hash_key (JArr xs) = Inl TypeError"
| "hash_key (JObj kvs) = Inl TypeError"

subsection \<open>Dates and times\<close>

text \<open>
  A \<^verbatim>\<open>datetime\<close> is naive (a wall-clock reading) or aware (an instant with a UTC
  offset). Both are counted in microseconds: a naive one from midnight of 0001-01-01 on the
  wall clock, an aware one from the same moment in UTC. Ordering a naive value against an
  aware one raises \<^verbatim>\<open>TypeError\<close>.
\<close>

datatype datetime = Naive int | Aware int

fun dt_gt :: "datetime \<Rightarrow> datetime \<Rightarrow> error + bool" where
  "dt_gt (Naive a) (Naive b) = Inr (b < a)"
| "dt_gt (Aware a) (Aware b) = Inr (b < a)"
| "dt_gt (Naive a) (Aware b) = Inl TypeError"
| "dt_gt (Aware a) (Naive b) = Inl TypeError"

definition hours :: "int \<Rightarrow> int" where
  "hours h = h * 3600000000"

definition minutes :: "int \<Rightarrow> int" where
  "minutes m = m * 60000000"

text \<open>\<^verbatim>\<open>datetime.now() - timedelta(hours=24)\<close>, for the reading \<open>now\<close> of the local clock.\<close>

definition cutoff :: "int \<Rightarrow> datetime" where
  "cutoff now = Naive (now - hours 24)"

text \<open>\<^verbatim>\<open>s.replace('Z', '+00:00')\<close> rewrites every \<^verbatim>\<open>Z\<close> of the string.\<close>

fun replace_Z :: "string \<Rightarrow> string" where
  "replace_Z [] = []"
| "replace_Z (c # cs) = (if c = CHR ''Z'' then ''+00:00'' @ replace_Z cs else c # replace_Z cs)"

text \<open>
  A parser for running the model on written-out timestamps. It reads the one layout that
  every version of \<^verbatim>\<open>fromisoformat\<close> accepts, \<^verbatim>\<open>YYYY-MM-DDTHH:MM:SS\<close> with an optional
  offset \<^verbatim>\<open>+HH:MM\<close> or \<^verbatim>\<open>-HH:MM\<close>, and refuses every other string. The days are
  counted as \<^verbatim>\<open>datetime\<close> counts them, in the proleptic Gregorian calendar.
\<close>

fun digits_value :: "string \<Rightarrow> nat \<Rightarrow> nat option" where
  "digits_value [] acc = Some acc"
| "digits_value (c # cs) acc =
     (if 48 \<le> (of_char c :: nat) \<and> (of_char c :: nat) \<le> 57
      then digits_value cs (acc * 10 + (of_char c - 48))
      else None)"

definition is_leap :: "nat \<Rightarrow> bool" where
  "is_leap y = (y mod 4 = 0 \<and> (y mod 100 \<noteq> 0 \<or> y mod 400 = 0))"

definition days_in_month :: "nat \<Rightarrow> nat \<Rightarrow> nat" where
  "days_in_month y m =
     (if m = 2 then (if is_leap y then 29 else 28)
      else if m = 4 \<or> m = 6 \<or> m = 9 \<or> m = 11 then 30 else 31)"

definition days_before_year :: "nat \<Rightarrow> nat" where
  "days_before_year y = (y - 1) * 365 + (y - 1) div 4 - (y - 1) div 100 + (y - 1) div 400"

definition days_before_month :: "nat \<Rightarrow> nat \<Rightarrow> nat" where
  "days_before_month y m = sum_list (map (days_in_month y) [1..<m])"

definition wall_clock :: "nat \<Rightarrow> nat \<Rightarrow> nat \<Rightarrow> nat \<Rightarrow> nat \<Rightarrow> nat \<Rightarrow> int" where
  "wall_clock y m d h mi s =
     (int (days_before_year y + days_before_month y m + (d - 1)) * 86400
        + int (h * 3600 + mi * 60 + s)) * 1000000"

definition utc_offset :: "string \<Rightarrow> int option option" where
  "utc_offset z =
     (if z = [] then Some None
      else if length z = 6 \<and> (z ! 0 = CHR ''+'' \<or> z ! 0 = CHR ''-'') \<and> z ! 3 = CHR '':''
      then (case (digits_value (take 2 (drop 1 z)) 0, digits_value (drop 4 z) 0) of
              (Some h, Some mi) \<Rightarrow>
                (if h < 24 \<and> mi < 60
                 then Some (Some ((if z ! 0 = CHR ''-'' then - 1 else 1) * int (h * 60 + mi)))
                 else None)
            | _ \<Rightarrow> None)
      else None)"

definition fromisoformat_seconds :: "string \<Rightarrow> datetime option" where
  "fromisoformat_seconds s =
     (if length s < 19 \<or> s ! 4 \<noteq> CHR ''-'' \<or> s ! 7 \<noteq> CHR ''-'' \<or> s ! 10 \<noteq> CHR ''T''
         \<or> s ! 13 \<noteq> CHR '':'' \<or> s ! 16 \<noteq> CHR '':''
      then None
      else
        (case (digits_value (take 4 s) 0, digits_value (take 2 (drop 5 s)) 0,
               digits_value (take 2 (drop 8 s)) 0, digits_value (take 2 (drop 11 s)) 0,
               digits_value (take 2 (drop 14 s)) 0, digits_value (take 2 (drop 17 s)) 0,
               utc_offset (drop 19 s)) of
           (Some y, Some m, Some d, Some h, Some mi, Some sec, Some off) \<Rightarrow>
             (if 1 \<le> y \<and> 1 \<le> m \<and> m \<le> 12 \<and> 1 \<le> d \<and> d \<le> days_in_month y m
                 \<and> h < 24 \<and> mi < 60 \<and> sec < 60
              then (case off of
                      None \<Rightarrow> Some (Naive (wall_clock y m d h mi sec))
                    | Some o_min \<Rightarrow> Some (Aware (wall_clock y m d h mi sec - minutes o_min)))
              else None)
         | _ \<Rightarrow> None))"

subsection \<open>Floating point\<close>

text \<open>
  The percentages are computed on doubles. A finite double is the rational number it
  denotes, and each operation returns the double nearest to the exact result, ties going to
  the even significand of 53 bits. Exponent limits are left out: the operands below are
  quotients of list lengths and their products with 100, far from overflow and underflow.
\<close>

definition round_half_even :: "rat \<Rightarrow> int" where
  "round_half_even x =
     (let f = \<lfloor>x\<rfloor>; d = x - of_int f
      in if d < 1 / 2 then f else if 1 / 2 < d then f + 1 else if even f then f else f + 1)"

text \<open>The exponent \<open>e\<close> with \<open>2 ^ e \<le> x < 2 ^ (e + 1)\<close>, for positive \<open>x\<close>.\<close>

definition ilog2 :: "rat \<Rightarrow> int" where
  "ilog2 x =
     (let k = bitlen (fst (quotient_of x)) - bitlen (snd (quotient_of x))
      in if 2 powi k \<le> x then k else k - 1)"

definition fl :: "rat \<Rightarrow> rat" where
  "fl x =
     (if x = 0 then 0
      else let u = 2 powi (ilog2 \<bar>x\<bar> - 52) in of_int (round_half_even (x / u)) * u)"

text \<open>\<^verbatim>\<open>a / b\<close> on two \<^verbatim>\<open>int\<close>s is the correctly rounded quotient, and raises on a zero
  divisor.\<close>

definition truediv :: "nat \<Rightarrow> nat \<Rightarrow> error + rat" where
  "truediv a b = (if b = 0 then Inl ZeroDivisionError else Inr (fl (of_nat a / of_nat b)))"

definition fmul :: "rat \<Rightarrow> rat \<Rightarrow> rat" where
  "fmul a b = fl (a * b)"

text \<open>\<^verbatim>\<open>round(x, 1)\<close>: the exact value of the double is rounded to one decimal, ties to
  the even digit, and the decimal is read back as a double.\<close>

definition round1 :: "rat \<Rightarrow> rat" where
  "round1 x = fl (of_int (round_half_even (x * 10)) / 10)"

datatype number = NInt int | NFloat rat

text \<open>\<^verbatim>\<open>round((n / t) * 100, 1) if t > 0 else 0\<close>, for a count \<open>n\<close> and the number
  \<open>t\<close> of records.\<close>

definition percentage :: "nat \<Rightarrow> nat \<Rightarrow> error + number" where
  "percentage n t =
     (if 0 < t
      then (case truediv n t of
              Inl e \<Rightarrow> Inl e
            | Inr q \<Rightarrow> Inr (NFloat (round1 (fmul q 100))))
      else Inr (NInt 0))"

text \<open>The decimal digits of a length, as an f-string prints it.\<close>

fun str_nat :: "nat \<Rightarrow> string" where
  "str_nat n =
     (if n < 10 then [char_of (48 + n)] else str_nat (n div 10) @ [char_of (48 + n mod 10)])"

section \<open>The analytics computation\<close>

text \<open>
  Both servers compute the analytics inline, on the list \<^verbatim>\<open>records\<close> taken from the
  fetched page: \<^verbatim>\<open>execute_nocodb_tool\<close> in \<^verbatim>\<open>mcp-server-fastapi.py\<close> and
  \<^verbatim>\<open>nocodb_get_analytics\<close> in \<^verbatim>\<open>nocodb_mcp_server.py\<close>. The counts and the shot type
  loop are the same text in both; the count of recent records is not.
\<close>

record analytics =
  total_reactions :: nat
  with_images :: nat
  cinematic_count :: nat
  anime_count :: nat
  with_sref_codes :: nat
  shot_types :: "(key \<times> nat) list"
  recent_24h :: nat

record summary =
  message :: string
  cinematic_percentage :: number
  anime_percentage :: number
  sref_coverage :: number

text \<open>\<^verbatim>\<open>len([r for r in records if r.get(k)])\<close>\<close>

definition count_field :: "string \<Rightarrow> dict list \<Rightarrow> nat" where
  "count_field k records = length (filter (\<lambda>r. truthy (get r k)) records)"

text \<open>\<^verbatim>\<open>d[k] = d.get(k, 0) + 1\<close> on a dictionary that keeps its keys in insertion
  order.\<close>

fun bump :: "(key \<times> nat) list \<Rightarrow> key \<Rightarrow> (key \<times> nat) list" where
  "bump [] k = [(k, 1)]"
| "bump ((k', n) # d) k = (if k' = k then (k', n + 1) # d else (k', n) # bump d k)"

text \<open>The loop \<^verbatim>\<open>for record in records: if record.get("shot_type"): ...\<close>, started on
  the dictionary built so far.\<close>

fun shot_type_breakdown :: "dict list \<Rightarrow> (key \<times> nat) list \<Rightarrow> error + (key \<times> nat) list" where
  "shot_type_breakdown [] d = Inr d"
| "shot_type_breakdown (r # rs) d =
     (if truthy (get r ''shot_type'')
      then (case hash_key (get r ''shot_type'') of
              Inl e \<Rightarrow> Inl e
            | Inr k \<Rightarrow> shot_type_breakdown rs (bump d k))
      else shot_type_breakdown rs d)"

text \<open>
  \<^verbatim>\<open>datetime.fromisoformat(v.replace('Z', '+00:00')) > cutoff\<close> for a timestamp value
  \<open>v\<close>. Only a string has \<^verbatim>\<open>replace\<close>. The grammar that \<^verbatim>\<open>fromisoformat\<close> accepts
  depends on the interpreter's version, so the parser is the argument \<open>parse\<close>: it
  answers \<open>None\<close> where the library raises \<^verbatim>\<open>ValueError\<close>.
\<close>

definition record_time_after ::
  "(string \<Rightarrow> datetime option) \<Rightarrow> datetime \<Rightarrow> json \<Rightarrow> error + bool" where
  "record_time_after parse c v =
     (case v of
        JStr s \<Rightarrow>
          (case parse (replace_Z s) of
             None \<Rightarrow> Inl ValueError
           | Some record_time \<Rightarrow> dt_gt record_time c)
      | _ \<Rightarrow> Inl AttributeError)"

text \<open>
  \<^verbatim>\<open>mcp-server-fastapi.py\<close>: the condition of the list comprehension,
  \<^verbatim>\<open>r.get("timestamp") and datetime.fromisoformat(...) > cutoff\<close>, and the length of
  the comprehension. An exception of any record ends the comprehension.
\<close>

definition recent_condition ::
  "(string \<Rightarrow> datetime option) \<Rightarrow> datetime \<Rightarrow> dict \<Rightarrow> error + bool" where
  "recent_condition parse c r =
     (if truthy (get r ''timestamp'') then record_time_after parse c (get r ''timestamp'')
      else Inr False)"

fun recent_fastapi ::
  "(string \<Rightarrow> datetime option) \<Rightarrow> datetime \<Rightarrow> dict list \<Rightarrow> error + nat" where
  "recent_fastapi parse c [] = Inr 0"
| "recent_fastapi parse c (r # rs) =
     (case recent_condition parse c r of
        Inl e \<Rightarrow> Inl e
      | Inr b \<Rightarrow>
          (case recent_fastapi parse c rs of
             Inl e \<Rightarrow> Inl e
           | Inr n \<Rightarrow> Inr (if b then Suc n else n)))"

text \<open>
  \<^verbatim>\<open>nocodb_mcp_server.py\<close>: the loop with its \<^verbatim>\<open>try\<close>, which passes over
  \<^verbatim>\<open>ValueError\<close> and \<^verbatim>\<open>AttributeError\<close> and lets every other exception through.
  \<open>n\<close> is \<^verbatim>\<open>analytics["recent_24h"]\<close> so far.
\<close>

fun recent_mcp ::
  "(string \<Rightarrow> datetime option) \<Rightarrow> datetime \<Rightarrow> dict list \<Rightarrow> nat \<Rightarrow> error + nat" where
  "recent_mcp parse c [] n = Inr n"
| "recent_mcp parse c (r # rs) n =
     (if truthy (get r ''timestamp'')
      then (case record_time_after parse c (get r ''timestamp'') of
              Inl ValueError \<Rightarrow> recent_mcp parse c rs n
            | Inl AttributeError \<Rightarrow> recent_mcp parse c rs n
            | Inl e \<Rightarrow> Inl e
            | Inr b \<Rightarrow> recent_mcp parse c rs (if b then n + 1 else n))
      else recent_mcp parse c rs n)"

text \<open>The three percentages of the \<^verbatim>\<open>summary\<close> dictionary, after the message built by
  the caller.\<close>

definition make_summary :: "string \<Rightarrow> analytics \<Rightarrow> error + summary" where
  "make_summary msg a =
     (case percentage (cinematic_count a) (total_reactions a) of
        Inl e \<Rightarrow> Inl e
      | Inr cp \<Rightarrow>
          (case percentage (anime_count a) (total_reactions a) of
             Inl e \<Rightarrow> Inl e
           | Inr ap \<Rightarrow>
               (case percentage (with_sref_codes a) (total_reactions a) of
                  Inl e \<Rightarrow> Inl e
                | Inr sp \<Rightarrow>
                    Inr \<lparr>message = msg, cinematic_percentage = cp,
                         anime_percentage = ap, sref_coverage = sp\<rparr>)))"

definition counts_message :: "analytics \<Rightarrow> string" where
  "counts_message a =
     str_nat (total_reactions a) @ '' total reactions, '' @ str_nat (with_images a)
       @ '' with images, '' @ str_nat (recent_24h a) @ '' in last 24h''"

text \<open>The first dictionary \<^verbatim>\<open>analytics\<close>, before the two loops fill it.\<close>

definition initial_analytics :: "dict list \<Rightarrow> analytics" where
  "initial_analytics records =
     \<lparr>total_reactions = length records,
      with_images = count_field ''image_url'' records,
      cinematic_count = count_field ''cinematic'' records,
      anime_count = count_field ''anime'' records,
      with_sref_codes = count_field ''sref_code'' records,
      shot_types = [],
      recent_24h = 0\<rparr>"

text \<open>\<^verbatim>\<open>mcp-server-fastapi.py\<close>, lines 398 to 430. The message starts with a chart
  emoji, four bytes in UTF-8.\<close>

definition analytics_fastapi ::
  "(string \<Rightarrow> datetime option) \<Rightarrow> int \<Rightarrow> dict list \<Rightarrow> error + analytics \<times> summary" where
  "analytics_fastapi parse now records =
     (case shot_type_breakdown records [] of
        Inl e \<Rightarrow> Inl e
      | Inr d \<Rightarrow>
          (case recent_fastapi parse (cutoff now) records of
             Inl e \<Rightarrow> Inl e
           | Inr n \<Rightarrow>
               (let a = (initial_analytics records)\<lparr>shot_types := d, recent_24h := n\<rparr>
                in case make_summary
                       ([CHR 0xF0, CHR 0x9F, CHR 0x93, CHR 0x8A] @ '' '' @ counts_message a) a of
                     Inl e \<Rightarrow> Inl e
                   | Inr s \<Rightarrow> Inr (a, s))))"

text \<open>\<^verbatim>\<open>nocodb_mcp_server.py\<close>, lines 640 to 678.\<close>

definition analytics_mcp ::
  "(string \<Rightarrow> datetime option) \<Rightarrow> int \<Rightarrow> dict list \<Rightarrow> error + analytics \<times> summary" where
  "analytics_mcp parse now records =
     (case shot_type_breakdown records [] of
        Inl e \<Rightarrow> Inl e
      | Inr d \<Rightarrow>
          (case recent_mcp parse (cutoff now) records 0 of
             Inl e \<Rightarrow> Inl e
           | Inr n \<Rightarrow>
               (let a = (initial_analytics records)\<lparr>shot_types := d, recent_24h := n\<rparr>
                in case make_summary (counts_message a) a of
                     Inl e \<Rightarrow> Inl e
                   | Inr s \<Rightarrow> Inr (a, s))))"

text \<open>The two servers by name, and the computation of either.\<close>

datatype server = FastAPI | FastMCP

definition analytics ::
  "server \<Rightarrow> (string \<Rightarrow> datetime option) \<Rightarrow> int \<Rightarrow> dict list \<Rightarrow> error + analytics \<times> summary" where
  "analytics v = (case v of FastAPI \<Rightarrow> analytics_fastapi | FastMCP \<Rightarrow> analytics_mcp)"

section \<open>Sessions\<close>

text \<open>
  \<^verbatim>\<open>MCPState\<close> and \<^verbatim>\<open>NocoDBContext\<close> each hold one \<^verbatim>\<open>aiohttp.ClientSession\<close>. A
  session carries the number under which it was constructed, so that two sessions built at
  different moments differ. The count of sessions constructed so far travels with the
  holder.
\<close>

record client_session =
  ident :: nat
  closed :: bool
  timeout_total :: nat

text \<open>\<^verbatim>\<open>aiohttp.ClientSession(timeout=aiohttp.ClientTimeout(total=30))\<close>\<close>

definition ClientSession :: "nat \<Rightarrow> nat \<Rightarrow> client_session" where
  "ClientSession n seconds = \<lparr>ident = n, closed = False, timeout_total = seconds\<rparr>"

record MCPState =
  nocodb_url :: string
  api_token :: "string option"
  session :: "client_session option"

text \<open>\<^verbatim>\<open>MCPState.get_session\<close>\<close>

definition get_session :: "MCPState \<times> nat \<Rightarrow> client_session \<times> MCPState \<times> nat" where
  "get_session = (\<lambda>(self, built).
     (case session self of
        None \<Rightarrow>
          (ClientSession built 30, self\<lparr>session := Some (ClientSession built 30)\<rparr>, Suc built)
      | Some s \<Rightarrow>
          (if closed s
           then (ClientSession built 30, self\<lparr>session := Some (ClientSession built 30)\<rparr>,
                 Suc built)
           else (s, self, built))))"

text \<open>\<^verbatim>\<open>MCPState.close\<close>\<close>

definition close :: "MCPState \<Rightarrow> MCPState" where
  "close self =
     (case session self of
        None \<Rightarrow> self
      | Some s \<Rightarrow> (if \<not> closed s then self\<lparr>session := Some (s\<lparr>closed := True\<rparr>)\<rparr> else self))"

record NocoDBContext =
  context_url :: string
  context_token :: string
  context_session :: "client_session option"
  startup_time :: int

text \<open>\<^verbatim>\<open>NocoDBContext.get_session\<close>\<close>

definition context_get_session ::
  "NocoDBContext \<times> nat \<Rightarrow> client_session \<times> NocoDBContext \<times> nat" where
  "context_get_session = (\<lambda>(self, built).
     (case context_session self of
        None \<Rightarrow>
          (ClientSession built 30, self\<lparr>context_session := Some (ClientSession built 30)\<rparr>,
           Suc built)
      | Some s \<Rightarrow>
          (if closed s
           then (ClientSession built 30,
                 self\<lparr>context_session := Some (ClientSession built 30)\<rparr>, Suc built)
           else (s, self, built))))"

text \<open>\<^verbatim>\<open>NocoDBContext.close_session\<close>\<close>

definition close_session :: "NocoDBContext \<Rightarrow> NocoDBContext" where
  "close_session self =
     (case context_session self of
        None \<Rightarrow> self
      | Some s \<Rightarrow>
          (if \<not> closed s then self\<lparr>context_session := Some (s\<lparr>closed := True\<rparr>)\<rparr>
           else self))"

text \<open>\<^verbatim>\<open>s.rstrip("/")\<close>\<close>

definition rstrip_slash :: "string \<Rightarrow> string" where
  "rstrip_slash s = rev (dropWhile (\<lambda>c. c = CHR ''/'') (rev s))"

text \<open>
  The process environment, as \<^verbatim>\<open>os.getenv\<close> reads it. \<^verbatim>\<open>MCPState.__init__\<close> takes the
  token as it is, set or not; \<^verbatim>\<open>lifespan\<close> raises \<^verbatim>\<open>ValueError\<close> when the token is
  missing or empty.
\<close>

definition getenv_default :: "(string \<Rightarrow> string option) \<Rightarrow> string \<Rightarrow> string \<Rightarrow> string" where
  "getenv_default environ k d = (case environ k of None \<Rightarrow> d | Some v \<Rightarrow> v)"

definition MCPState_init :: "(string \<Rightarrow> string option) \<Rightarrow> MCPState" where
  "MCPState_init environ =
     \<lparr>nocodb_url = getenv_default environ ''NOCODB_URL'' ''https://nocodb.v1su4.com'',
      api_token = environ ''NOCODB_API_TOKEN'',
      session = None\<rparr>"

definition lifespan :: "(string \<Rightarrow> string option) \<Rightarrow> int \<Rightarrow> error + NocoDBContext" where
  "lifespan environ time =
     (case environ ''NOCODB_API_TOKEN'' of
        None \<Rightarrow> Inl ValueError
      | Some token \<Rightarrow>
          (if token = [] then Inl ValueError
           else Inr \<lparr>context_url =
                       rstrip_slash
                         (getenv_default environ ''NOCODB_URL'' ''https://nocodb.v1su4.com''),
                     context_token = token, context_session = None, startup_time = time\<rparr>))"

section \<open>Requests\<close>

text \<open>
  One call of \<^verbatim>\<open>session.get\<close>, \<^verbatim>\<open>post\<close>, \<^verbatim>\<open>patch\<close> or \<^verbatim>\<open>delete\<close> is a
  \<open>request\<close>: the method, the URL and the keyword arguments \<^verbatim>\<open>headers\<close>,
  \<^verbatim>\<open>params\<close> and \<^verbatim>\<open>json\<close> as the code passes them. What the server sees of the reply
  is its status and its body.
\<close>

datatype http_method = GET | POST | PATCH | DELETE

record request =
  verb :: http_method
  url :: string
  headers :: "(string \<times> json) list"
  params :: "(string \<times> json) list option"
  json_body :: "json option"

record response =
  status :: nat
  body :: string

text \<open>
  The libraries and the world outside, as functions handed to the model:
  \<^item> \<open>send\<close>: entering \<^verbatim>\<open>async with session.get(...) as response\<close> on a session; it
    answers the response, or the exception that \<^verbatim>\<open>aiohttp\<close> raises;
  \<^item> \<open>decode\<close>: \<^verbatim>\<open>await response.json()\<close>;
  \<^item> \<open>fromisoformat\<close>: \<^verbatim>\<open>datetime.fromisoformat\<close>, \<open>None\<close> for \<^verbatim>\<open>ValueError\<close>;
  \<^item> \<open>clock\<close>: \<^verbatim>\<open>datetime.now()\<close>, and \<open>isoformat\<close> its \<^verbatim>\<open>isoformat()\<close>;
  \<^item> \<open>format_value\<close>: how an f-string prints a value that is not a string;
  \<^item> \<open>dumps\<close>: \<^verbatim>\<open>json.dumps\<close>;
  \<^item> \<open>str_exc\<close>: \<^verbatim>\<open>str(e)\<close> of an exception.
\<close>

record env =
  send :: "client_session \<Rightarrow> request \<Rightarrow> error + response"
  decode :: "response \<Rightarrow> error + json"
  fromisoformat :: "string \<Rightarrow> datetime option"
  clock :: int
  isoformat :: "int \<Rightarrow> string"
  format_value :: "json \<Rightarrow> string"
  dumps :: "json \<Rightarrow> string"
  str_exc :: "error \<Rightarrow> string"

text \<open>A value inside an f-string: a string prints as itself.\<close>

definition fmt :: "env \<Rightarrow> json \<Rightarrow> string" where
  "fmt e v = (case v of JStr s \<Rightarrow> s | _ \<Rightarrow> format_value e v)"

text \<open>\<^verbatim>\<open>response.raise_for_status()\<close> raises from status 400 on.\<close>

definition raise_for_status :: "response \<Rightarrow> error + unit" where
  "raise_for_status r = (if 400 \<le> status r then Inl (ClientResponseError (status r)) else Inr ())"

text \<open>
  \<^verbatim>\<open>async with session.m(...) as response: block\<close>. The result comes with the list of
  the requests made: the one request, also when it failed.
\<close>

definition request_with ::
  "env \<Rightarrow> client_session \<Rightarrow> request \<Rightarrow> (response \<Rightarrow> error + 'a) \<Rightarrow> (error + 'a) \<times> request list" where
  "request_with e s req block =
     (case send e s req of
        Inl err \<Rightarrow> (Inl err, [req])
      | Inr response \<Rightarrow> (block response, [req]))"

text \<open>\<^verbatim>\<open>response.raise_for_status(); return await response.json()\<close>\<close>

definition status_then_json :: "env \<Rightarrow> response \<Rightarrow> error + json" where
  "status_then_json e response =
     (case raise_for_status response of
        Inl err \<Rightarrow> Inl err
      | Inr u \<Rightarrow> decode e response)"

text \<open>
  \<^verbatim>\<open>records = data.get("list", [])\<close> and what the code then asks of it: \<^verbatim>\<open>len\<close>, and
  \<^verbatim>\<open>r.get\<close> of every element, in the first comprehension. A value without \<^verbatim>\<open>get\<close>
  raises \<^verbatim>\<open>AttributeError\<close>, one without a length \<^verbatim>\<open>TypeError\<close>; iterating a string
  gives its characters and iterating a dictionary its keys, all of them strings.
\<close>

fun as_dicts :: "json list \<Rightarrow> error + dict list" where
  "as_dicts [] = Inr []"
| "as_dicts (JObj d # vs) = (case as_dicts vs of Inl e \<Rightarrow> Inl e | Inr ds \<Rightarrow> Inr (d # ds))"
| "as_dicts (v # vs) = Inl AttributeError"

definition records_of :: "json \<Rightarrow> error + dict list" where
  "records_of data =
     (case data of
        JObj d \<Rightarrow>
          (case get_default d ''list'' (JArr []) of
             JArr vs \<Rightarrow> as_dicts vs
           | JStr s \<Rightarrow> (if s = [] then Inr [] else Inl AttributeError)
           | JObj kvs \<Rightarrow> (if kvs = [] then Inr [] else Inl AttributeError)
           | _ \<Rightarrow> Inl TypeError)
      | _ \<Rightarrow> Inl AttributeError)"

text \<open>What a tool hands back: JSON from the remote service, or a dictionary that holds
  the analytics.\<close>

datatype pyval =
    Json json
  | Analytics analytics
  | Summary summary
  | Dict "(string \<times> pyval) list"

section \<open>The plain HTTP server, \<^verbatim>\<open>mcp-server-fastapi.py\<close>\<close>

text \<open>\<^verbatim>\<open>response.raise_for_status(); return await response.json()\<close> as the value of a
  tool.\<close>

definition return_json :: "env \<Rightarrow> response \<Rightarrow> error + pyval" where
  "return_json e response =
     (case status_then_json e response of Inl err \<Rightarrow> Inl err | Inr v \<Rightarrow> Inr (Json v))"

definition meta_projects :: "string \<Rightarrow> string" where
  "meta_projects base_url = base_url @ ''/api/v1/db/meta/projects''"

definition data_table :: "env \<Rightarrow> string \<Rightarrow> json \<Rightarrow> json \<Rightarrow> string" where
  "data_table e base_url project_id table_id =
     base_url @ ''/api/v1/db/data/noco/'' @ fmt e project_id @ ''/'' @ fmt e table_id"

definition plain :: "http_method \<Rightarrow> string \<Rightarrow> (string \<times> json) list \<Rightarrow> request" where
  "plain m u h = \<lparr>verb = m, url = u, headers = h, params = None, json_body = None\<rparr>"

text \<open>The schema that \<^verbatim>\<open>nocodb_create_discord_reactions_table\<close> posts.\<close>

definition column :: "string \<Rightarrow> string \<Rightarrow> string \<Rightarrow> (string \<times> json) list \<Rightarrow> json" where
  "column c t u extra =
     JObj ([(''column_name'', JStr c), (''title'', JStr t), (''uidt'', JStr u)] @ extra)"

definition table_schema :: json where
  "table_schema =
     JObj [(''table_name'', JStr ''discord_heart_reactions''),
           (''title'', JStr ''Discord Heart Reactions''),
           (''columns'', JArr
              [column ''message_content'' ''Message Content'' ''Text'' [(''required'', JBool True)],
               column ''sref_code'' ''SREF Code'' ''SingleLineText'' [],
               column ''image_url'' ''Image URL'' ''URL'' [],
               column ''cinematic'' ''Cinematic'' ''Checkbox'' [(''default'', JBool False)],
               column ''anime'' ''Anime'' ''Checkbox'' [(''default'', JBool False)],
               column ''colors'' ''Colors'' ''Text'' [],
               column ''shot_type'' ''Shot Type'' ''SingleLineText'' [],
               column ''mood'' ''Mood'' ''SingleLineText'' [],
               column ''style'' ''Style'' ''SingleLineText'' [],
               column ''subject'' ''Subject'' ''Text'' [],
               column ''discord_message_id'' ''Discord Message ID'' ''SingleLineText''
                 [(''required'', JBool True), (''unique'', JBool True)],
               column ''discord_channel_id'' ''Discord Channel ID'' ''SingleLineText''
                 [(''required'', JBool True)],
               column ''timestamp'' ''Timestamp'' ''DateTime'' [(''required'', JBool True)]])]"

text \<open>
  The branches of \<^verbatim>\<open>execute_nocodb_tool\<close>, each from its first line to its
  \<^verbatim>\<open>return\<close>. A branch reads its arguments with \<^verbatim>\<open>args[...]\<close> in the order of the
  source, so that the first missing one raises \<^verbatim>\<open>KeyError\<close> before any request.
\<close>

definition test_connection_tool ::
  "env \<Rightarrow> client_session \<Rightarrow> (string \<times> json) list \<Rightarrow> string \<Rightarrow> (error + pyval) \<times> request list" where
  "test_connection_tool e s h base_url =
     request_with e s (plain GET (meta_projects base_url) h)
       (\<lambda>response.
          if status response \<noteq> 200
          then Inl (HTTPException (status response) ''Connection failed'')
          else (case decode e response of Inl err \<Rightarrow> Inl err | Inr v \<Rightarrow> Inr (Json v)))"

definition list_projects_tool ::
  "env \<Rightarrow> client_session \<Rightarrow> (string \<times> json) list \<Rightarrow> string \<Rightarrow> (error + pyval) \<times> request list" where
  "list_projects_tool e s h base_url =
     request_with e s (plain GET (meta_projects base_url) h) (return_json e)"

definition list_tables_tool ::
  "env \<Rightarrow> client_session \<Rightarrow> (string \<times> json) list \<Rightarrow> string \<Rightarrow> dict
     \<Rightarrow> (error + pyval) \<times> request list" where
  "list_tables_tool e s h base_url args =
     (case subscript args ''project_id'' of
        Inl err \<Rightarrow> (Inl err, [])
      | Inr project_id \<Rightarrow>
          request_with e s
            (plain GET (meta_projects base_url @ ''/'' @ fmt e project_id @ ''/tables'') h)
            (return_json e))"

definition get_records_tool ::
  "env \<Rightarrow> client_session \<Rightarrow> (string \<times> json) list \<Rightarrow> string \<Rightarrow> dict
     \<Rightarrow> (error + pyval) \<times> request list" where
  "get_records_tool e s h base_url args =
     (case subscript args ''project_id'' of
        Inl err \<Rightarrow> (Inl err, [])
      | Inr project_id \<Rightarrow>
          (case subscript args ''table_id'' of
             Inl err \<Rightarrow> (Inl err, [])
           | Inr table_id \<Rightarrow>
               request_with e s
                 \<lparr>verb = GET, url = data_table e base_url project_id table_id, headers = h,
                  params = Some [(''limit'', get_default args ''limit'' (JInt 10)),
                                 (''offset'', get_default args ''offset'' (JInt 0))],
                  json_body = None\<rparr>
                 (return_json e)))"

definition create_record_tool ::
  "env \<Rightarrow> client_session \<Rightarrow> (string \<times> json) list \<Rightarrow> string \<Rightarrow> dict
     \<Rightarrow> (error + pyval) \<times> request list" where
  "create_record_tool e s h base_url args =
     (case subscript args ''project_id'' of
        Inl err \<Rightarrow> (Inl err, [])
      | Inr project_id \<Rightarrow>
          (case subscript args ''table_id'' of
             Inl err \<Rightarrow> (Inl err, [])
           | Inr table_id \<Rightarrow>
               (case subscript args ''record_data'' of
                  Inl err \<Rightarrow> (Inl err, [])
                | Inr record_data \<Rightarrow>
                    request_with e s
                      \<lparr>verb = POST, url = data_table e base_url project_id table_id,
                       headers = h, params = None, json_body = Some record_data\<rparr>
                      (return_json e))))"

definition search_records_tool ::
  "env \<Rightarrow> client_session \<Rightarrow> (string \<times> json) list \<Rightarrow> string \<Rightarrow> dict
     \<Rightarrow> (error + pyval) \<times> request list" where
  "search_records_tool e s h base_url args =
     (case subscript args ''project_id'' of
        Inl err \<Rightarrow> (Inl err, [])
      | Inr project_id \<Rightarrow>
          (case subscript args ''table_id'' of
             Inl err \<Rightarrow> (Inl err, [])
           | Inr table_id \<Rightarrow>
               request_with e s
                 \<lparr>verb = GET, url = data_table e base_url project_id table_id, headers = h,
                  params = Some [(''where'',
                                  JStr (dumps e (get_default args ''filters'' (JObj []))))],
                  json_body = None\<rparr>
                 (return_json e)))"

definition update_record_tool ::
  "env \<Rightarrow> client_session \<Rightarrow> (string \<times> json) list \<Rightarrow> string \<Rightarrow> dict
     \<Rightarrow> (error + pyval) \<times> request list" where
  "update_record_tool e s h base_url args =
     (case subscript args ''project_id'' of
        Inl err \<Rightarrow> (Inl err, [])
      | Inr project_id \<Rightarrow>
          (case subscript args ''table_id'' of
             Inl err \<Rightarrow> (Inl err, [])
           | Inr table_id \<Rightarrow>
               (case subscript args ''record_id'' of
                  Inl err \<Rightarrow> (Inl err, [])
                | Inr record_id \<Rightarrow>
                    (case subscript args ''record_data'' of
                       Inl err \<Rightarrow> (Inl err, [])
                     | Inr record_data \<Rightarrow>
                         request_with e s
                           \<lparr>verb = PATCH,
                            url = data_table e base_url project_id table_id @ ''/''
                                    @ fmt e record_id,
                            headers = h, params = None, json_body = Some record_data\<rparr>
                           (return_json e)))))"

definition delete_record_tool ::
  "env \<Rightarrow> client_session \<Rightarrow> (string \<times> json) list \<Rightarrow> string \<Rightarrow> dict
     \<Rightarrow> (error + pyval) \<times> request list" where
  "delete_record_tool e s h base_url args =
     (case subscript args ''project_id'' of
        Inl err \<Rightarrow> (Inl err, [])
      | Inr project_id \<Rightarrow>
          (case subscript args ''table_id'' of
             Inl err \<Rightarrow> (Inl err, [])
           | Inr table_id \<Rightarrow>
               (case subscript args ''record_id'' of
                  Inl err \<Rightarrow> (Inl err, [])
                | Inr record_id \<Rightarrow>
                    request_with e s
                      (plain DELETE
                         (data_table e base_url project_id table_id @ ''/'' @ fmt e record_id) h)
                      (\<lambda>response.
                         case raise_for_status response of
                           Inl err \<Rightarrow> Inl err
                         | Inr u \<Rightarrow>
                             Inr (Dict [(''message'',
                                         Json (JStr ''Record deleted successfully''))])))))"

definition create_discord_reactions_table_tool ::
  "env \<Rightarrow> client_session \<Rightarrow> (string \<times> json) list \<Rightarrow> string \<Rightarrow> dict
     \<Rightarrow> (error + pyval) \<times> request list" where
  "create_discord_reactions_table_tool e s h base_url args =
     (case subscript args ''project_id'' of
        Inl err \<Rightarrow> (Inl err, [])
      | Inr project_id \<Rightarrow>
          request_with e s
            \<lparr>verb = POST,
             url = meta_projects base_url @ ''/'' @ fmt e project_id @ ''/tables'',
             headers = h, params = None, json_body = Some table_schema\<rparr>
            (return_json e))"

definition get_analytics_tool ::
  "env \<Rightarrow> client_session \<Rightarrow> (string \<times> json) list \<Rightarrow> string \<Rightarrow> dict
     \<Rightarrow> (error + pyval) \<times> request list" where
  "get_analytics_tool e s h base_url args =
     (case subscript args ''project_id'' of
        Inl err \<Rightarrow> (Inl err, [])
      | Inr project_id \<Rightarrow>
          (case subscript args ''table_id'' of
             Inl err \<Rightarrow> (Inl err, [])
           | Inr table_id \<Rightarrow>
               request_with e s
                 (plain GET (data_table e base_url project_id table_id @ ''?limit=1000'') h)
                 (\<lambda>response.
                    case status_then_json e response of
                      Inl err \<Rightarrow> Inl err
                    | Inr data \<Rightarrow>
                        (case records_of data of
                           Inl err \<Rightarrow> Inl err
                         | Inr records \<Rightarrow>
                             (case analytics_fastapi (fromisoformat e) (clock e) records of
                                Inl err \<Rightarrow> Inl err
                              | Inr (a, sm) \<Rightarrow>
                                  Inr (Dict [(''success'', Json (JBool True)),
                                             (''analytics'', Analytics a),
                                             (''summary'', Summary sm)]))))))"

text \<open>
  \<^verbatim>\<open>execute_nocodb_tool\<close>: the session is acquired first, then the headers and the
  base URL are built, then the chain of \<^verbatim>\<open>if\<close> and \<^verbatim>\<open>elif\<close> on the tool name runs.
  \<^verbatim>\<open>args.get("url", mcp_state.nocodb_url).rstrip("/")\<close> needs a string.
\<close>

definition base_url_of :: "MCPState \<Rightarrow> dict \<Rightarrow> error + string" where
  "base_url_of self args =
     (case get_default args ''url'' (JStr (nocodb_url self)) of
        JStr u \<Rightarrow> Inr (rstrip_slash u)
      | _ \<Rightarrow> Inl AttributeError)"

definition tool_chain ::
  "env \<Rightarrow> client_session \<Rightarrow> (string \<times> json) list \<Rightarrow> string \<Rightarrow> string \<Rightarrow> dict
     \<Rightarrow> (error + pyval) \<times> request list" where
  "tool_chain e s h base_url tool_name args =
     (if tool_name = ''nocodb_test_connection'' then test_connection_tool e s h base_url
      else if tool_name = ''nocodb_list_projects'' then list_projects_tool e s h base_url
      else if tool_name = ''nocodb_list_tables'' then list_tables_tool e s h base_url args
      else if tool_name = ''nocodb_get_records'' then get_records_tool e s h base_url args
      else if tool_name = ''nocodb_create_record'' then create_record_tool e s h base_url args
      else if tool_name = ''nocodb_search_records'' then search_records_tool e s h base_url args
      else if tool_name = ''nocodb_update_record'' then update_record_tool e s h base_url args
      else if tool_name = ''nocodb_delete_record'' then delete_record_tool e s h base_url args
      else if tool_name = ''nocodb_create_discord_reactions_table''
        then create_discord_reactions_table_tool e s h base_url args
      else if tool_name = ''nocodb_get_analytics'' then get_analytics_tool e s h base_url args
      else (Inl (HTTPException 400 (''Unknown tool: '' @ tool_name)), []))"

definition execute_nocodb_tool ::
  "env \<Rightarrow> MCPState \<times> nat \<Rightarrow> string \<Rightarrow> dict \<Rightarrow> json
     \<Rightarrow> ((error + pyval) \<times> request list) \<times> MCPState \<times> nat" where
  "execute_nocodb_tool e state tool_name args token =
     (case get_session state of
        (s, state') \<Rightarrow>
          (case base_url_of (fst state') args of
             Inl err \<Rightarrow> ((Inl err, []), state')
           | Inr base_url \<Rightarrow>
               (tool_chain e s
                  [(''Content-Type'', JStr ''application/json''), (''xc-auth'', token)]
                  base_url tool_name args,
                state')))"

text \<open>
  The route \<^verbatim>\<open>POST /call\<close>. \<^verbatim>\<open>execute_tool\<close> wraps its whole body in
  \<^verbatim>\<open>try ... except Exception\<close>, and \<^verbatim>\<open>HTTPException\<close> is an \<^verbatim>\<open>Exception\<close>: whatever
  the body raises becomes a returned \<^verbatim>\<open>MCPResponse\<close>.
\<close>

record ToolCall =
  name :: string
  arguments :: dict

record MCPResponse =
  success :: bool
  result :: "pyval option"
  error :: "string option"

definition execute_tool_body ::
  "env \<Rightarrow> MCPState \<times> nat \<Rightarrow> ToolCall
     \<Rightarrow> ((error + MCPResponse) \<times> request list) \<times> MCPState \<times> nat" where
  "execute_tool_body e state tool_call =
     (let token = get_default (arguments tool_call) ''api_token''
                    (case api_token (fst state) of None \<Rightarrow> JNull | Some t \<Rightarrow> JStr t)
      in if \<not> truthy token
         then ((Inl (HTTPException 400 ''API token required''), []), state)
         else (case execute_nocodb_tool e state (name tool_call) (arguments tool_call) token of
                 ((Inl err, reqs), state') \<Rightarrow> ((Inl err, reqs), state')
               | ((Inr r, reqs), state') \<Rightarrow>
                   ((Inr \<lparr>success = True, result = Some r, error = None\<rparr>, reqs), state')))"

definition execute_tool ::
  "env \<Rightarrow> MCPState \<times> nat \<Rightarrow> ToolCall
     \<Rightarrow> ((error + MCPResponse) \<times> request list) \<times> MCPState \<times> nat" where
  "execute_tool e state tool_call =
     (case execute_tool_body e state tool_call of
        ((Inl err, reqs), state') \<Rightarrow>
          ((Inr \<lparr>success = False, result = None, error = Some (str_exc e err)\<rparr>, reqs), state')
      | ((Inr r, reqs), state') \<Rightarrow> ((Inr r, reqs), state'))"

text \<open>
  What the framework sends for the route: status 200 with the returned model, and for an
  exception that leaves \<^verbatim>\<open>execute_tool\<close> the reply of the registered handler,
  \<^verbatim>\<open>http_exception_handler\<close> or \<^verbatim>\<open>general_exception_handler\<close>.
\<close>

datatype content = Model MCPResponse | ErrorContent string bool

record http_reply =
  status_code :: nat
  content :: content

definition http_exception_handler :: "nat \<Rightarrow> string \<Rightarrow> http_reply" where
  "http_exception_handler code detail = \<lparr>status_code = code, content = ErrorContent detail False\<rparr>"

definition general_exception_handler :: "error \<Rightarrow> http_reply" where
  "general_exception_handler exc =
     \<lparr>status_code = 500, content = ErrorContent ''Internal server error'' False\<rparr>"

definition call_route ::
  "env \<Rightarrow> MCPState \<times> nat \<Rightarrow> ToolCall \<Rightarrow> (http_reply \<times> request list) \<times> MCPState \<times> nat" where
  "call_route e state tool_call =
     (case execute_tool e state tool_call of
        ((Inr r, reqs), state') \<Rightarrow> ((\<lparr>status_code = 200, content = Model r\<rparr>, reqs), state')
      | ((Inl (HTTPException code detail), reqs), state') \<Rightarrow>
          ((http_exception_handler code detail, reqs), state')
      | ((Inl exc, reqs), state') \<Rightarrow> ((general_exception_handler exc, reqs), state'))"

section \<open>The tool server, \<^verbatim>\<open>nocodb_mcp_server.py\<close>\<close>

text \<open>
  Each tool is a function of its own. Its arguments arrive typed by its signature, an
  argument with a default may be left out, and the tool returns \<^verbatim>\<open>json.dumps\<close> of a
  dictionary: the dictionary is the value here. Every tool catches \<^verbatim>\<open>Exception\<close>
  around its whole body and answers a dictionary with \<^verbatim>\<open>success\<close> false.
\<close>

definition failure :: "env \<Rightarrow> string \<Rightarrow> error \<Rightarrow> (string \<times> pyval) list" where
  "failure e what exc =
     [(''success'', Json (JBool False)), (''error'', Json (JStr (what @ '': '' @ str_exc e exc)))]"

definition stamp :: "env \<Rightarrow> string \<times> pyval" where
  "stamp e = (''timestamp'', Json (JStr (isoformat e (clock e))))"

definition context_table :: "NocoDBContext \<Rightarrow> string \<Rightarrow> string \<Rightarrow> string" where
  "context_table self project_id table_id =
     context_url self @ ''/api/v1/db/data/noco/'' @ project_id @ ''/'' @ table_id"

text \<open>\<^verbatim>\<open>nocodb_get_records(ctx, project_id, table_id, limit=10, offset=0)\<close>\<close>

definition nocodb_get_records ::
  "env \<Rightarrow> NocoDBContext \<times> nat \<Rightarrow> string \<Rightarrow> string \<Rightarrow> int option \<Rightarrow> int option
     \<Rightarrow> ((string \<times> pyval) list \<times> request list) \<times> NocoDBContext \<times> nat" where
  "nocodb_get_records e state project_id table_id limit_arg offset_arg =
     (let limit = (case limit_arg of None \<Rightarrow> 10 | Some l \<Rightarrow> l);
          offset = (case offset_arg of None \<Rightarrow> 0 | Some k \<Rightarrow> k)
      in case context_get_session state of
           (s, state') \<Rightarrow>
             (case request_with e s
                     \<lparr>verb = GET, url = context_table (fst state') project_id table_id,
                      headers = [(''xc-token'', JStr (context_token (fst state')))],
                      params = Some [(''limit'', JInt limit), (''offset'', JInt offset)],
                      json_body = None\<rparr>
                     (status_then_json e) of
                (Inl exc, reqs) \<Rightarrow> ((failure e ''Failed to get records'' exc, reqs), state')
              | (Inr data, reqs) \<Rightarrow>
                  (([(''success'', Json (JBool True)),
                     (''project_id'', Json (JStr project_id)),
                     (''table_id'', Json (JStr table_id)),
                     (''records'', Json data),
                     stamp e], reqs), state')))"

text \<open>\<^verbatim>\<open>nocodb_delete_record(ctx, project_id, table_id, record_id)\<close>\<close>

definition nocodb_delete_record ::
  "env \<Rightarrow> NocoDBContext \<times> nat \<Rightarrow> string \<Rightarrow> string \<Rightarrow> string
     \<Rightarrow> ((string \<times> pyval) list \<times> request list) \<times> NocoDBContext \<times> nat" where
  "nocodb_delete_record e state project_id table_id record_id =
     (case context_get_session state of
        (s, state') \<Rightarrow>
          (case request_with e s
                  (plain DELETE
                     (context_table (fst state') project_id table_id @ ''/'' @ record_id)
                     [(''xc-token'', JStr (context_token (fst state')))])
                  raise_for_status of
             (Inl exc, reqs) \<Rightarrow> ((failure e ''Failed to delete record'' exc, reqs), state')
           | (Inr u, reqs) \<Rightarrow>
               (([(''success'', Json (JBool True)),
                  (''project_id'', Json (JStr project_id)),
                  (''table_id'', Json (JStr table_id)),
                  (''record_id'', Json (JStr record_id)),
                  (''message'', Json (JStr ''Record deleted successfully'')),
                  stamp e], reqs), state')))"

text \<open>\<^verbatim>\<open>nocodb_get_analytics(ctx, project_id, table_id)\<close>\<close>

definition nocodb_get_analytics ::
  "env \<Rightarrow> NocoDBContext \<times> nat \<Rightarrow> string \<Rightarrow> string
     \<Rightarrow> ((string \<times> pyval) list \<times> request list) \<times> NocoDBContext \<times> nat" where
  "nocodb_get_analytics e state project_id table_id =
     (case context_get_session state of
        (s, state') \<Rightarrow>
          (case request_with e s
                  (plain GET
                     (context_table (fst state') project_id table_id @ ''?limit=1000'')
                     [(''xc-token'', JStr (context_token (fst state')))])
                  (\<lambda>response.
                     case status_then_json e response of
                       Inl exc \<Rightarrow> Inl exc
                     | Inr data \<Rightarrow>
                         (case records_of data of
                            Inl exc \<Rightarrow> Inl exc
                          | Inr records \<Rightarrow> analytics_mcp (fromisoformat e) (clock e) records)) of
             (Inl exc, reqs) \<Rightarrow> ((failure e ''Failed to get analytics'' exc, reqs), state')
           | (Inr (a, sm), reqs) \<Rightarrow>
               (([(''success'', Json (JBool True)),
                  (''project_id'', Json (JStr project_id)),
                  (''table_id'', Json (JStr table_id)),
                  (''analytics'', Analytics a),
                  (''summary'', Summary sm),
                  stamp e], reqs), state')))"

section \<open>Notions used in the proofs\<close>

text \<open>A record whose shot type cannot be a dictionary key, and the keys that the shot
  type loop inserts, in order.\<close>

definition unhashable :: "dict \<Rightarrow> bool" where
  "unhashable r =
     (truthy (get r ''shot_type'') \<and> hash_key (get r ''shot_type'') = Inl TypeError)"

fun shot_keys :: "dict list \<Rightarrow> key list" where
  "shot_keys [] = []"
| "shot_keys (r # rs) =
     (if truthy (get r ''shot_type'')
      then (case hash_key (get r ''shot_type'') of
              Inl e \<Rightarrow> shot_keys rs
            | Inr k \<Rightarrow> k # shot_keys rs)
      else shot_keys rs)"

text \<open>A record that the count of recent records counts, one whose timestamp raises, and
  one whose timestamp raises past the \<^verbatim>\<open>except\<close> clause of the tool server.\<close>

definition counted :: "(string \<Rightarrow> datetime option) \<Rightarrow> datetime \<Rightarrow> dict \<Rightarrow> bool" where
  "counted parse c r =
     (truthy (get r ''timestamp'') \<and> record_time_after parse c (get r ''timestamp'') = Inr True)"

definition raising :: "(string \<Rightarrow> datetime option) \<Rightarrow> datetime \<Rightarrow> dict \<Rightarrow> bool" where
  "raising parse c r =
     (truthy (get r ''timestamp'') \<and> isl (record_time_after parse c (get r ''timestamp'')))"

definition breaking :: "(string \<Rightarrow> datetime option) \<Rightarrow> datetime \<Rightarrow> dict \<Rightarrow> bool" where
  "breaking parse c r =
     (truthy (get r ''timestamp'')
        \<and> record_time_after parse c (get r ''timestamp'') = Inl TypeError)"

definition failing ::
  "server \<Rightarrow> (string \<Rightarrow> datetime option) \<Rightarrow> datetime \<Rightarrow> dict \<Rightarrow> bool" where
  "failing v parse c r =
     (unhashable r
        \<or> (case v of FastAPI \<Rightarrow> raising parse c r | FastMCP \<Rightarrow> breaking parse c r))"

text \<open>The value of a percentage, the first bytes of the message, and the analytics of a
  run that raises nothing.\<close>

definition pct :: "nat \<Rightarrow> nat \<Rightarrow> number" where
  "pct n t = (if 0 < t then NFloat (round1 (fmul (fl (of_nat n / of_nat t)) 100)) else NInt 0)"

definition banner :: "server \<Rightarrow> string" where
  "banner v =
     (case v of FastAPI \<Rightarrow> [CHR 0xF0, CHR 0x9F, CHR 0x93, CHR 0x8A] @ '' '' | FastMCP \<Rightarrow> [])"

definition aggregate :: "(string \<Rightarrow> datetime option) \<Rightarrow> int \<Rightarrow> dict list \<Rightarrow> analytics" where
  "aggregate parse now rs =
     (initial_analytics rs)
       \<lparr>shot_types := foldl bump [] (shot_keys rs),
        recent_24h := length (filter (counted parse (cutoff now)) rs)\<rparr>"

section \<open>Inputs for running the model\<close>

text \<open>A holder that has no session yet, for each server.\<close>

definition fresh_state :: MCPState where
  "fresh_state =
     \<lparr>nocodb_url = ''https://nocodb.example'', api_token = Some ''tok'', session = None\<rparr>"

definition fresh_context :: NocoDBContext where
  "fresh_context =
     \<lparr>context_url = ''https://nocodb.example'', context_token = ''tok'',
      context_session = None, startup_time = 0\<rparr>"

text \<open>Noon of 2 May 2024 on the local clock, a record stamped exactly 24 hours before
  it, and one stamped 23 hours and 59 minutes before it.\<close>

definition sample_now :: int where
  "sample_now = wall_clock 2024 5 2 12 0 0"

definition day_old :: dict where
  "day_old = [(''timestamp'', JStr ''2024-05-01T12:00:00''), (''shot_type'', JStr ''wide'')]"

definition almost_day_old :: dict where
  "almost_day_old =
     [(''timestamp'', JStr ''2024-05-01T12:01:00''), (''shot_type'', JStr ''wide''),
      (''anime'', JBool True)]"

section \<open>Facts about the analytics computation\<close>

lemma count_field_le: "count_field k rs \<le> length rs"
  by (simp add: count_field_def)

lemma map_of_bump:
  "map_of (bump d k) k' =
     (if k' = k then Some (case map_of d k of None \<Rightarrow> 1 | Some n \<Rightarrow> n + 1) else map_of d k')"
  by (induction d k rule: bump.induct) auto

lemma sum_bump: "sum_list (map snd (bump d k)) = Suc (sum_list (map snd d))"
  by (induction d k rule: bump.induct) auto

lemma pos_bump: "\<forall>p\<in>set d. 1 \<le> snd p \<Longrightarrow> \<forall>p\<in>set (bump d k). 1 \<le> snd p"
  by (induction d k rule: bump.induct) auto

lemma keys_bump: "fst ` set (bump d k) = insert k (fst ` set d)"
  by (induction d k rule: bump.induct) auto

lemma distinct_bump: "distinct (map fst d) \<Longrightarrow> distinct (map fst (bump d k))"
  by (induction d k rule: bump.induct) (auto simp: keys_bump)

lemma hash_key_error: "hash_key v = Inl e \<Longrightarrow> e = TypeError"
  by (cases v) auto

lemma shot_type_breakdown_eq:
  "shot_type_breakdown rs d =
     (if \<exists>r\<in>set rs. unhashable r then Inl TypeError else Inr (foldl bump d (shot_keys rs)))"
proof (induction rs arbitrary: d)
  case Nil
  show ?case by simp
next
  case (Cons r rs)
  show ?case
  proof (cases "truthy (get r ''shot_type'')")
    case False
    then show ?thesis using Cons.IH [of d] by (simp add: unhashable_def)
  next
    case True
    show ?thesis
    proof (cases "hash_key (get r ''shot_type'')")
      case (Inl e)
      then have "e = TypeError" by (rule hash_key_error)
      with Inl True show ?thesis by (simp add: unhashable_def)
    next
      case (Inr k)
      with True show ?thesis using Cons.IH [of "bump d k"]
        by (simp add: unhashable_def)
    qed
  qed
qed

lemma map_of_foldl_bump:
  "map_of (foldl bump d ks) k =
     (if k \<in> set ks
      then Some (count_list ks k + (case map_of d k of None \<Rightarrow> 0 | Some n \<Rightarrow> n))
      else map_of d k)"
proof (induction ks arbitrary: d)
  case Nil
  show ?case by simp
next
  case (Cons x ks)
  show ?case
    using Cons.IH [of "bump d x"]
    by (cases "map_of d k") (auto simp: map_of_bump)
qed

lemma count_shot_keys:
  "count_list (shot_keys rs) k =
     length (filter (\<lambda>r. truthy (get r ''shot_type'') \<and> hash_key (get r ''shot_type'') = Inr k) rs)"
proof (induction rs)
  case Nil
  show ?case by simp
next
  case (Cons r rs)
  show ?case
  proof (cases "truthy (get r ''shot_type'')")
    case False
    then show ?thesis using Cons.IH by simp
  next
    case True
    show ?thesis
    proof (cases "hash_key (get r ''shot_type'')")
      case (Inl e)
      with True show ?thesis using Cons.IH by simp
    next
      case (Inr k')
      with True show ?thesis using Cons.IH by simp
    qed
  qed
qed

lemma length_filter_mset: "mset rs = mset rs' \<Longrightarrow> length (filter P rs) = length (filter P rs')"
  by (metis mset_filter size_mset)

lemma map_of_breakdown_perm:
  assumes "mset rs = mset rs'"
  shows "map_of (foldl bump d (shot_keys rs)) = map_of (foldl bump d (shot_keys rs'))"
proof
  fix k
  have c: "count_list (shot_keys rs) k = count_list (shot_keys rs') k"
    by (simp add: count_shot_keys length_filter_mset [OF assms])
  have "k \<in> set (shot_keys rs) \<longleftrightarrow> k \<in> set (shot_keys rs')"
    using c by (metis count_list_0_iff)
  with c show "map_of (foldl bump d (shot_keys rs)) k = map_of (foldl bump d (shot_keys rs')) k"
    by (simp add: map_of_foldl_bump)
qed


lemma dt_gt_error: "dt_gt a b = Inl e \<Longrightarrow> e = TypeError"
  by (cases a; cases b) auto

lemma record_time_after_error:
  "record_time_after parse c v = Inl e \<Longrightarrow> e = ValueError \<or> e = AttributeError \<or> e = TypeError"
  by (auto simp: record_time_after_def split: json.splits option.splits dest: dt_gt_error)

lemma recent_condition_cases:
  "recent_condition parse c r = Inr b \<longleftrightarrow> \<not> raising parse c r \<and> b = counted parse c r"
  by (cases "record_time_after parse c (get r ''timestamp'')")
     (auto simp: recent_condition_def raising_def counted_def)

lemma recent_fastapi_Inr:
  "recent_fastapi parse c rs = Inr n \<longleftrightarrow>
     (\<forall>r\<in>set rs. \<not> raising parse c r) \<and> n = length (filter (counted parse c) rs)"
proof (induction rs arbitrary: n)
  case Nil
  show ?case by auto
next
  case (Cons r rs)
  show ?case
  proof (cases "recent_condition parse c r")
    case (Inl e)
    then have "raising parse c r"
      by (metis recent_condition_cases sum.distinct(1)) 
    with Inl show ?thesis by simp
  next
    case (Inr b)
    then have b: "\<not> raising parse c r" "b = counted parse c r"
      by (simp_all add: recent_condition_cases)
    show ?thesis
    proof (cases "recent_fastapi parse c rs")
      case (Inl e)
      with Inr b Cons.IH show ?thesis by auto
    next
      case r: (Inr m)
      with Inr b Cons.IH [of m] show ?thesis by auto
    qed
  qed
qed

lemma recent_mcp_eq:
  "recent_mcp parse c rs n =
     (if \<exists>r\<in>set rs. breaking parse c r then Inl TypeError
      else Inr (n + length (filter (counted parse c) rs)))"
proof (induction rs arbitrary: n)
  case Nil
  show ?case by simp
next
  case (Cons r rs)
  show ?case
  proof (cases "truthy (get r ''timestamp'')")
    case False
    then have "\<not> breaking parse c r" "\<not> counted parse c r"
      by (simp_all add: breaking_def counted_def)
    with False show ?thesis using Cons.IH [of n] by simp
  next
    case True
    show ?thesis
    proof (cases "record_time_after parse c (get r ''timestamp'')")
      case (Inl e)
      then have nc: "\<not> counted parse c r" by (simp add: counted_def)
      from Inl consider "e = ValueError" | "e = AttributeError" | "e = TypeError"
        using record_time_after_error by blast
      then show ?thesis
      proof cases
        case 1
        with Inl True have "\<not> breaking parse c r" by (simp add: breaking_def)
        with 1 Inl True nc show ?thesis using Cons.IH [of n] by simp
      next
        case 2
        with Inl True have "\<not> breaking parse c r" by (simp add: breaking_def)
        with 2 Inl True nc show ?thesis using Cons.IH [of n] by simp
      next
        case 3
        with Inl True have "breaking parse c r" by (simp add: breaking_def)
        with 3 Inl True show ?thesis by simp
      qed
    next
      case (Inr b)
      with True have "\<not> breaking parse c r" "counted parse c r = b"
        by (auto simp: breaking_def counted_def)
      with Inr True show ?thesis
        using Cons.IH [of "if b then n + 1 else n"] by simp
    qed
  qed
qed


lemma percentage_pct: "percentage n t = Inr (pct n t)"
  by (simp add: percentage_def truediv_def pct_def)

lemma make_summary_eq:
  "make_summary msg a =
     Inr \<lparr>message = msg,
          cinematic_percentage = pct (cinematic_count a) (total_reactions a),
          anime_percentage = pct (anime_count a) (total_reactions a),
          sref_coverage = pct (with_sref_codes a) (total_reactions a)\<rparr>"
  by (simp add: make_summary_def percentage_pct)

lemma analytics_Inr:
  "analytics v parse now rs = Inr (a, s) \<longleftrightarrow>
     (\<forall>r\<in>set rs. \<not> failing v parse (cutoff now) r) \<and> a = aggregate parse now rs
       \<and> make_summary (banner v @ counts_message a) a = Inr s"
proof (cases v)
  case FastAPI
  show ?thesis
  proof (cases "recent_fastapi parse (cutoff now) rs")
    case (Inl e)
    then have "\<not> (\<forall>r\<in>set rs. \<not> raising parse (cutoff now) r)"
      using recent_fastapi_Inr [of parse "cutoff now" rs] by auto
    with Inl FastAPI show ?thesis
      by (auto simp: analytics_def analytics_fastapi_def failing_def shot_type_breakdown_eq)
  next
    case (Inr n)
    then have "(\<forall>r\<in>set rs. \<not> raising parse (cutoff now) r)"
      and "n = length (filter (counted parse (cutoff now)) rs)"
      using recent_fastapi_Inr [of parse "cutoff now" rs n] by auto
    with Inr FastAPI show ?thesis
      by (auto simp: analytics_def analytics_fastapi_def failing_def shot_type_breakdown_eq
          aggregate_def banner_def Let_def split: sum.splits)
  qed
next
  case FastMCP
  then show ?thesis
    by (auto simp: analytics_def analytics_mcp_def failing_def shot_type_breakdown_eq
        recent_mcp_eq aggregate_def banner_def Let_def split: sum.splits)
qed


lemma aggregate_fields:
  "total_reactions (aggregate parse now rs) = length rs"
  "with_images (aggregate parse now rs) = count_field ''image_url'' rs"
  "cinematic_count (aggregate parse now rs) = count_field ''cinematic'' rs"
  "anime_count (aggregate parse now rs) = count_field ''anime'' rs"
  "with_sref_codes (aggregate parse now rs) = count_field ''sref_code'' rs"
  "shot_types (aggregate parse now rs) = foldl bump [] (shot_keys rs)"
  "recent_24h (aggregate parse now rs) = length (filter (counted parse (cutoff now)) rs)"
  by (simp_all add: aggregate_def initial_analytics_def)

lemma count_field_mset: "mset rs = mset rs' \<Longrightarrow> count_field k rs = count_field k rs'"
  unfolding count_field_def by (rule length_filter_mset)

lemma foldl_bump_pos:
  "\<forall>p\<in>set d. 1 \<le> snd p \<Longrightarrow> \<forall>p\<in>set (foldl bump d ks). 1 \<le> snd p"
proof (induction ks arbitrary: d)
  case Nil
  then show ?case by simp
next
  case (Cons k ks)
  from Cons.prems have "\<forall>p\<in>set (bump d k). 1 \<le> snd p" by (rule pos_bump)
  then show ?case using Cons.IH [of "bump d k"] by simp
qed

lemma foldl_bump_sum: "sum_list (map snd (foldl bump d ks)) = sum_list (map snd d) + length ks"
  by (induction ks arbitrary: d) (simp_all add: sum_bump)

lemma foldl_bump_distinct: "distinct (map fst d) \<Longrightarrow> distinct (map fst (foldl bump d ks))"
  by (induction ks arbitrary: d) (simp_all add: distinct_bump)

lemma length_shot_keys: "length (shot_keys rs) \<le> length rs"
  by (induction rs) (auto split: sum.splits)



lemma make_summary_cong:
  assumes "total_reactions a' = total_reactions a" "with_images a' = with_images a"
    "cinematic_count a' = cinematic_count a" "anime_count a' = anime_count a"
    "with_sref_codes a' = with_sref_codes a" "recent_24h a' = recent_24h a"
  shows "make_summary (b @ counts_message a') a' = make_summary (b @ counts_message a) a"
proof -
  have "counts_message a' = counts_message a"
    unfolding counts_message_def by (simp only: assms)
  then show ?thesis
    unfolding make_summary_eq by (simp only: assms)
qed

lemma mset_same_set: "mset rs = mset rs' \<Longrightarrow> set rs' = set rs"
  by (metis mset_eq_setD)

lemma mset_same_length: "mset rs = mset rs' \<Longrightarrow> length rs' = length rs"
  by (metis mset_eq_length)

lemma aggregate_perm:
  assumes "mset rs = mset rs'"
  shows "total_reactions (aggregate parse now rs') = total_reactions (aggregate parse now rs)"
    and "with_images (aggregate parse now rs') = with_images (aggregate parse now rs)"
    and "cinematic_count (aggregate parse now rs') = cinematic_count (aggregate parse now rs)"
    and "anime_count (aggregate parse now rs') = anime_count (aggregate parse now rs)"
    and "with_sref_codes (aggregate parse now rs') = with_sref_codes (aggregate parse now rs)"
    and "recent_24h (aggregate parse now rs') = recent_24h (aggregate parse now rs)"
    and "map_of (shot_types (aggregate parse now rs')) = map_of (shot_types (aggregate parse now rs))"
  using mset_same_length [OF assms] count_field_mset [OF assms, of "''image_url''"]
    count_field_mset [OF assms, of "''cinematic''"]
    count_field_mset [OF assms, of "''anime''"]
    count_field_mset [OF assms, of "''sref_code''"]
    length_filter_mset [OF assms, of "counted parse (cutoff now)"]
    map_of_breakdown_perm [OF assms, of "[]"]
  by (simp_all only: aggregate_fields)

section \<open>Sessions are acquired lazily and released once\<close>

text \<open>
  Claim C8. Acquiring a session returns the existing session, and leaves the holder as it
  is, when the holder has a session that is open. Otherwise it constructs a new session
  with a total timeout of 30, stores it and returns it. Releasing closes the session when
  there is one and it is open, and changes nothing when there is none or it is closed
  already, so releasing twice is releasing once. This holds for \<^verbatim>\<open>MCPState\<close> and for
  \<^verbatim>\<open>NocoDBContext\<close>.
\<close>

theorem session_lifecycle:
  "(session self = Some s \<and> \<not> closed s \<longrightarrow>
      get_session (self, n) = (s, self, n)
        \<and> close self = self\<lparr>session := Some (s\<lparr>closed := True\<rparr>)\<rparr>)
   \<and> (session self = None \<or> session self = Some s \<and> closed s \<longrightarrow>
        get_session (self, n)
          = (ClientSession n 30, self\<lparr>session := Some (ClientSession n 30)\<rparr>, Suc n)
        \<and> close self = self)
   \<and> (context_session ctx = Some s \<and> \<not> closed s \<longrightarrow>
        context_get_session (ctx, n) = (s, ctx, n)
          \<and> close_session ctx = ctx\<lparr>context_session := Some (s\<lparr>closed := True\<rparr>)\<rparr>)
   \<and> (context_session ctx = None \<or> context_session ctx = Some s \<and> closed s \<longrightarrow>
        context_get_session (ctx, n)
          = (ClientSession n 30, ctx\<lparr>context_session := Some (ClientSession n 30)\<rparr>, Suc n)
        \<and> close_session ctx = ctx)
   \<and> timeout_total (ClientSession n 30) = 30 \<and> \<not> closed (ClientSession n 30)
   \<and> ident (ClientSession n 30) = n
   \<and> close (close self) = close self
   \<and> close_session (close_session ctx) = close_session ctx"
  by (auto simp: get_session_def close_def context_get_session_def close_session_def
      ClientSession_def split: option.splits)

theorem session_lifecycle_witness:
  "get_session (fresh_state, 0)
     = (ClientSession 0 30, fresh_state\<lparr>session := Some (ClientSession 0 30)\<rparr>, 1)
   \<and> close fresh_state = fresh_state
   \<and> get_session (fresh_state\<lparr>session := Some (ClientSession 0 30)\<rparr>, 1)
       = (ClientSession 0 30, fresh_state\<lparr>session := Some (ClientSession 0 30)\<rparr>, 1)
   \<and> close (fresh_state\<lparr>session := Some (ClientSession 0 30)\<rparr>)
       = fresh_state\<lparr>session := Some ((ClientSession 0 30)\<lparr>closed := True\<rparr>)\<rparr>
   \<and> get_session (fresh_state\<lparr>session := Some ((ClientSession 0 30)\<lparr>closed := True\<rparr>)\<rparr>, 1)
       = (ClientSession 1 30, fresh_state\<lparr>session := Some (ClientSession 1 30)\<rparr>, 2)
   \<and> context_get_session (fresh_context, 0)
       = (ClientSession 0 30, fresh_context\<lparr>context_session := Some (ClientSession 0 30)\<rparr>, 1)
   \<and> close_session (fresh_context\<lparr>context_session := Some (ClientSession 0 30)\<rparr>)
       = fresh_context\<lparr>context_session := Some ((ClientSession 0 30)\<lparr>closed := True\<rparr>)\<rparr>"
  using session_lifecycle [of fresh_state "ClientSession 0 30" 0 fresh_context]
    session_lifecycle [of "fresh_state\<lparr>session := Some (ClientSession 0 30)\<rparr>"
      "ClientSession 0 30" 1 "fresh_context\<lparr>context_session := Some (ClientSession 0 30)\<rparr>"]
    session_lifecycle [of "fresh_state\<lparr>session := Some ((ClientSession 0 30)\<lparr>closed := True\<rparr>)\<rparr>"
      "(ClientSession 0 30)\<lparr>closed := True\<rparr>" 1 fresh_context]
  by (simp add: fresh_state_def fresh_context_def ClientSession_def)

end
